theory Spec2Isabelle
  imports Main "HOL-Library.Multiset"
begin

section \<open>JavaScript values and the runtime functions the service calls\<close>

text \<open>
  The service (\<^verbatim>\<open>src/app.service.ts\<close>) handles upstream data typed \<^verbatim>\<open>any\<close>. Such data
  is a JSON tree, or \<^verbatim>\<open>undefined\<close>. An object is the list of its own properties in the
  order \<^verbatim>\<open>Object.entries\<close> enumerates them. Strings are lists of characters, one per
  code unit. Numbers are kept abstract (type \<open>'n\<close>): the service never computes with
  them, it only tests whether one is falsy and prints it.
\<close>

datatype 'n jsval =
    JUndefined
  | JNull
  | JBool bool
  | JNum 'n
  | JStr string
  | JArr "'n jsval list"
  | JObj "(string \<times> 'n jsval) list"

text \<open>
  Library functions of the JavaScript runtime whose results depend on tables or
  grammars outside the repository are parameters of the model:
  \<^item> \<open>toLowerCase\<close> is \<^verbatim>\<open>String.prototype.toLowerCase\<close>;
  \<^item> \<open>JSON_parse\<close> is \<^verbatim>\<open>JSON.parse\<close>, with \<open>None\<close> for a thrown \<^verbatim>\<open>SyntaxError\<close>;
  \<^item> \<open>JSON_stringify\<close> is \<^verbatim>\<open>JSON.stringify\<close> on a value other than \<^verbatim>\<open>undefined\<close>
    (a JSON tree has no cycle and no BigInt, so the call returns a string);
  \<^item> \<open>Number_toString\<close> is the decimal rendering of a number, \<open>Number_falsy\<close> holds
    of \<^verbatim>\<open>0\<close>, \<^verbatim>\<open>-0\<close> and \<^verbatim>\<open>NaN\<close>.
\<close>

record 'n js_runtime =
  toLowerCase :: "string \<Rightarrow> string"
  JSON_parse :: "string \<Rightarrow> 'n jsval option"
  JSON_stringify :: "'n jsval \<Rightarrow> string"
  Number_toString :: "'n \<Rightarrow> string"
  Number_falsy :: "'n \<Rightarrow> bool"

text \<open>
  Exceptions are values. \<open>TypeError\<close> is what the engine throws on a property read of
  \<^verbatim>\<open>null\<close> or \<^verbatim>\<open>undefined\<close> and on a failed conversion to a primitive;
  \<open>SyntaxError\<close> is what \<^verbatim>\<open>JSON.parse\<close> throws;
  \<open>NotFoundException\<close> is the NestJS exception the service throws itself, with its
  message; \<open>UpstreamFailure\<close> is a rejected HTTP call.
\<close>

datatype error =
    TypeError
  | SyntaxError
  | NotFoundException string
  | UpstreamFailure string

definition ebind :: "error + 'a \<Rightarrow> ('a \<Rightarrow> error + 'b) \<Rightarrow> error + 'b" where
  "ebind m f = (case m of Inl e \<Rightarrow> Inl e | Inr x \<Rightarrow> f x)"

text \<open>\<^verbatim>\<open>Array.isArray(v)\<close>, and the elements of an array.\<close>

fun isArray :: "'n jsval \<Rightarrow> bool" where
  "isArray (JArr xs) = True"
| "isArray v = False"

fun arrayItems :: "'n jsval \<Rightarrow> 'n jsval list" where
  "arrayItems (JArr xs) = xs"
| "arrayItems v = []"

text \<open>\<^verbatim>\<open>typeof v\<close>: an array and \<^verbatim>\<open>null\<close> are both \<^verbatim>\<open>'object'\<close>.\<close>

fun typeof :: "'n jsval \<Rightarrow> string" where
  "typeof JUndefined = ''undefined''"
| "typeof JNull = ''object''"
| "typeof (JBool b) = ''boolean''"
| "typeof (JNum n) = ''number''"
| "typeof (JStr s) = ''string''"
| "typeof (JArr xs) = ''object''"
| "typeof (JObj kvs) = ''object''"

text \<open>
  Truthiness, as \<^verbatim>\<open>&&\<close>, \<^verbatim>\<open>||\<close> and \<^verbatim>\<open>?:\<close> test it: \<^verbatim>\<open>undefined\<close>, \<^verbatim>\<open>null\<close>,
  \<^verbatim>\<open>false\<close>, a falsy number and the empty string are falsy; every array and every
  object is truthy.
\<close>

fun truthy :: "'n js_runtime \<Rightarrow> 'n jsval \<Rightarrow> bool" where
  "truthy rt JUndefined = False"
| "truthy rt JNull = False"
| "truthy rt (JBool b) = b"
| "truthy rt (JNum n) = (\<not> Number_falsy rt n)"
| "truthy rt (JStr s) = (s \<noteq> [])"
| "truthy rt (JArr xs) = True"
| "truthy rt (JObj kvs) = True"

text \<open>
  A property read \<^verbatim>\<open>v.k\<close>. It throws on \<^verbatim>\<open>undefined\<close> and \<^verbatim>\<open>null\<close>. The service reads
  only the names \<^verbatim>\<open>models\<close>, \<^verbatim>\<open>data\<close>, \<^verbatim>\<open>providers\<close>, \<^verbatim>\<open>name\<close> and \<^verbatim>\<open>image\<close>; none of
  them is a property of a string, number, boolean or array, nor inherited by an
  object, so the read gives \<^verbatim>\<open>undefined\<close> unless the object has the key itself.
\<close>

fun get_prop :: "'n jsval \<Rightarrow> string \<Rightarrow> error + 'n jsval" where
  "get_prop JUndefined k = Inl TypeError"
| "get_prop JNull k = Inl TypeError"
| "get_prop (JObj kvs) k = Inr (case map_of kvs k of None \<Rightarrow> JUndefined | Some v \<Rightarrow> v)"
| "get_prop v k = Inr JUndefined"

text \<open>
  \<^verbatim>\<open>String(v)\<close>. An array is joined with commas, \<^verbatim>\<open>null\<close> and \<^verbatim>\<open>undefined\<close> elements
  printing as nothing. An object prints through \<^verbatim>\<open>Object.prototype.toString\<close>, unless
  it has a key \<^verbatim>\<open>toString\<close> of its own: the value there is data, not a function, and
  neither it nor \<^verbatim>\<open>valueOf\<close> yields a primitive, so the conversion throws.
\<close>

fun js_String :: "'n js_runtime \<Rightarrow> 'n jsval \<Rightarrow> error + string"
  and js_join :: "'n js_runtime \<Rightarrow> 'n jsval list \<Rightarrow> error + string" where
  "js_String rt JUndefined = Inr ''undefined''"
| "js_String rt JNull = Inr ''null''"
| "js_String rt (JBool b) = Inr (if b then ''true'' else ''false'')"
| "js_String rt (JNum n) = Inr (Number_toString rt n)"
| "js_String rt (JStr s) = Inr s"
| "js_String rt (JArr xs) = js_join rt xs"
| "js_String rt (JObj kvs) =
     (if ''toString'' \<in> fst ` set kvs then Inl TypeError else Inr ''[object Object]'')"
| "js_join rt [] = Inr ''''"
| "js_join rt (x # xs) =
     ebind (if x = JUndefined \<or> x = JNull then Inr '''' else js_String rt x) (\<lambda>s.
       if xs = [] then Inr s
       else ebind (js_join rt xs) (\<lambda>t. Inr (s @ '','' @ t)))"


text \<open>
  An insertion-ordered table with one entry per key: writing a key that is present
  replaces its value where it stands, writing a new key appends an entry. This is what
  \<^verbatim>\<open>Map.prototype.set\<close> does to a \<^verbatim>\<open>Map\<close> and what the assignment \<^verbatim>\<open>o[k] = v\<close> does to
  the own properties of an object.
\<close>

fun upsert :: "'k \<Rightarrow> 'v \<Rightarrow> ('k \<times> 'v) list \<Rightarrow> ('k \<times> 'v) list" where
  "upsert k v [] = [(k, v)]"
| "upsert k v ((k', v') # kvs) =
     (if k' = k then (k, v) # kvs else (k', v') # upsert k v kvs)"

text \<open>\<^verbatim>\<open>Object.entries\<close>, \<^verbatim>\<open>Object.values\<close> and \<^verbatim>\<open>Object.keys\<close>, called on objects only.\<close>

fun Object_entries :: "'n jsval \<Rightarrow> (string \<times> 'n jsval) list" where
  "Object_entries (JObj kvs) = kvs"
| "Object_entries v = []"

definition Object_values :: "'n jsval \<Rightarrow> 'n jsval list" where
  "Object_values v = map snd (Object_entries v)"

definition Object_keys :: "'n jsval \<Rightarrow> 'n jsval list" where
  "Object_keys v = map (\<lambda>kv. JStr (fst kv)) (Object_entries v)"

fun stringOf :: "'n jsval \<Rightarrow> string" where
  "stringOf (JStr s) = s"
| "stringOf v = []"

section \<open>The service\<close>

subsection \<open>\<^verbatim>\<open>safeStringify\<close> (lines 12 to 23)\<close>

text \<open>
  The \<^verbatim>\<open>try\<close> block: \<^verbatim>\<open>s\<close> is the string itself or \<^verbatim>\<open>JSON.stringify(obj)\<close>, which
  is \<^verbatim>\<open>undefined\<close> for \<^verbatim>\<open>undefined\<close>; reading \<^verbatim>\<open>s.length\<close> then throws.
\<close>

definition safeStringify_try :: "'n js_runtime \<Rightarrow> 'n jsval \<Rightarrow> nat \<Rightarrow> error + string" where
  "safeStringify_try rt obj maxlen =
     (let s = (if typeof obj = ''string'' then Some (stringOf obj)
               else if obj = JUndefined then None
               else Some (JSON_stringify rt obj))
      in case s of
           None \<Rightarrow> Inl TypeError
         | Some s \<Rightarrow>
             Inr (if length s > maxlen then take maxlen s @ ''... (truncated)'' else s))"

definition safeStringify :: "'n js_runtime \<Rightarrow> 'n jsval \<Rightarrow> nat \<Rightarrow> string" where
  "safeStringify rt obj maxlen =
     (case safeStringify_try rt obj maxlen of
        Inr r \<Rightarrow> r
      | Inl e \<Rightarrow>
          (case js_String rt obj of
             Inr r \<Rightarrow> r
           | Inl e' \<Rightarrow> ''[unserializable]''))"

subsection \<open>Normalising the upstream payload (lines 43 to 110)\<close>

text \<open>The test \<^verbatim>\<open>d && Array.isArray(d.k)\<close>: the property is read only of a truthy \<open>d\<close>.\<close>

definition hasArrayProp :: "'n js_runtime \<Rightarrow> 'n jsval \<Rightarrow> string \<Rightarrow> error + bool" where
  "hasArrayProp rt d k =
     (if truthy rt d then ebind (get_prop d k) (\<lambda>v. Inr (isArray v)) else Inr False)"

definition arrayProp :: "'n jsval \<Rightarrow> string \<Rightarrow> error + 'n jsval list" where
  "arrayProp d k = ebind (get_prop d k) (\<lambda>v. Inr (arrayItems v))"

text \<open>Lines 68 to 72.\<close>

definition isProviderKeyedFormat :: "'n jsval \<Rightarrow> bool" where
  "isProviderKeyedFormat d =
     list_all (\<lambda>value. isArray value \<and>
                 list_all (\<lambda>item. typeof item = ''string'') (arrayItems value))
       (Object_values d)"

text \<open>
  Lines 77 to 88. \<open>modelMap\<close> is the \<^verbatim>\<open>Map\<close> from a model name to the providers seen
  for it so far. The inner loop runs over one provider's model names, the outer loop
  over the entries of the payload.
\<close>

type_synonym modelMap = "(string \<times> string list) list"

fun addModelNames :: "string \<Rightarrow> 'n jsval list \<Rightarrow> modelMap \<Rightarrow> modelMap" where
  "addModelNames providerName [] modelMap = modelMap"
| "addModelNames providerName (modelName # rest) modelMap =
     addModelNames providerName rest
       (if typeof modelName = ''string'' then
          (let existingProviders =
                 (case map_of modelMap (stringOf modelName) of
                    None \<Rightarrow> []
                  | Some ps \<Rightarrow> ps)
           in upsert (stringOf modelName) (existingProviders @ [providerName]) modelMap)
        else modelMap)"

fun addProviders :: "(string \<times> 'n jsval) list \<Rightarrow> modelMap \<Rightarrow> modelMap" where
  "addProviders [] modelMap = modelMap"
| "addProviders ((providerName, modelNames) # rest) modelMap =
     addProviders rest
       (if isArray modelNames then addModelNames providerName (arrayItems modelNames) modelMap
        else modelMap)"

text \<open>Lines 91 to 94: one object \<^verbatim>\<open>{name, providers}\<close> per entry of the map.\<close>

definition modelObjects :: "modelMap \<Rightarrow> 'n jsval list" where
  "modelObjects modelMap =
     map (\<lambda>(name, providers).
            JObj [(''name'', JStr name), (''providers'', JArr (map JStr providers))])
       modelMap"

text \<open>
  Lines 55 to 58, the body of the \<^verbatim>\<open>try\<close>: the parsed value goes through the first
  three tests only, and \<^verbatim>\<open>models\<close> keeps its initial value \<^verbatim>\<open>[]\<close> when none holds.
\<close>

definition parsedModels :: "'n js_runtime \<Rightarrow> string \<Rightarrow> error + 'n jsval list" where
  "parsedModels rt s =
     (case JSON_parse rt s of
        None \<Rightarrow> Inl SyntaxError
      | Some parsed \<Rightarrow>
          if isArray parsed then Inr (arrayItems parsed)
          else ebind (hasArrayProp rt parsed ''models'') (\<lambda>hasModels.
            if hasModels then arrayProp parsed ''models''
            else ebind (hasArrayProp rt parsed ''data'') (\<lambda>hasData.
              if hasData then arrayProp parsed ''data''
              else Inr [])))"

text \<open>
  Lines 44 to 110. The \<^verbatim>\<open>catch\<close> of line 59 takes any exception of the \<^verbatim>\<open>try\<close> block
  and leaves \<^verbatim>\<open>models\<close> empty. The logger calls only build strings and are left out.
\<close>

definition normalize :: "'n js_runtime \<Rightarrow> 'n jsval \<Rightarrow> error + 'n jsval list" where
  "normalize rt data =
     (if isArray data then Inr (arrayItems data)
      else ebind (hasArrayProp rt data ''models'') (\<lambda>hasModels.
        if hasModels then arrayProp data ''models''
        else ebind (hasArrayProp rt data ''data'') (\<lambda>hasData.
          if hasData then arrayProp data ''data''
          else if typeof data = ''string'' then
            (case parsedModels rt (stringOf data) of
               Inl e \<Rightarrow> Inr []
             | Inr models \<Rightarrow> Inr models)
          else if truthy rt data \<and> typeof data = ''object'' then
            (if isProviderKeyedFormat data
             then Inr (modelObjects (addProviders (Object_entries data) []))
             else Inr [])
          else Inr [])))"

subsection \<open>Filtering by the configured provider (lines 120 to 137)\<close>

text \<open>
  The local \<^verbatim>\<open>providers\<close> of the filter callback, from the value \<open>p\<close> of
  \<^verbatim>\<open>model.providers\<close>. The tests are made in the order of the source.
\<close>

definition providersOf :: "'n js_runtime \<Rightarrow> 'n jsval \<Rightarrow> 'n jsval list" where
  "providersOf rt p =
     (if isArray p then arrayItems p
      else if truthy rt p \<and> typeof p = ''object'' then Object_keys p
      else if typeof p = ''string'' then [p]
      else [])"

text \<open>
  \<^verbatim>\<open>providers.some(provider => String(provider).toLowerCase() === providerKey)\<close>: the
  elements are converted from the left, and the search stops at the first match.
\<close>

fun someMatch :: "'n js_runtime \<Rightarrow> string \<Rightarrow> 'n jsval list \<Rightarrow> error + bool" where
  "someMatch rt providerKey [] = Inr False"
| "someMatch rt providerKey (provider # rest) =
     ebind (js_String rt provider) (\<lambda>s.
       if toLowerCase rt s = providerKey then Inr True
       else someMatch rt providerKey rest)"

definition matchesProvider :: "'n js_runtime \<Rightarrow> string \<Rightarrow> 'n jsval \<Rightarrow> error + bool" where
  "matchesProvider rt providerKey model =
     ebind (get_prop model ''providers'') (\<lambda>p.
       someMatch rt providerKey (providersOf rt p))"

fun filterModels :: "'n js_runtime \<Rightarrow> string \<Rightarrow> 'n jsval list \<Rightarrow> error + 'n jsval list" where
  "filterModels rt providerKey [] = Inr []"
| "filterModels rt providerKey (model # rest) =
     ebind (matchesProvider rt providerKey model) (\<lambda>keep.
       ebind (filterModels rt providerKey rest) (\<lambda>kept.
         Inr (if keep then model # kept else kept)))"

subsection \<open>Rendering (lines 147 to 157)\<close>

text \<open>\<^verbatim>\<open>a || b\<close> is \<open>a\<close> when \<open>a\<close> is truthy and \<open>b\<close> otherwise.\<close>

definition js_or :: "'n js_runtime \<Rightarrow> 'n jsval \<Rightarrow> 'n jsval \<Rightarrow> 'n jsval" where
  "js_or rt a b = (if truthy rt a then a else b)"

definition renderModel :: "('n::zero) js_runtime \<Rightarrow> 'n jsval \<Rightarrow> error + 'n jsval" where
  "renderModel rt model =
     ebind (get_prop model ''name'') (\<lambda>name.
       ebind (get_prop model ''image'') (\<lambda>image.
         Inr (JObj [(''id'', name),
                    (''object'', JStr ''model''),
                    (''created'', JNum 0),
                    (''owned_by'', JStr []),
                    (''image'', js_or rt image (JBool False)),
                    (''provider'', JBool True)])))"

fun mapE :: "('a \<Rightarrow> error + 'b) \<Rightarrow> 'a list \<Rightarrow> error + 'b list" where
  "mapE f [] = Inr []"
| "mapE f (x # xs) = ebind (f x) (\<lambda>y. ebind (mapE f xs) (\<lambda>ys. Inr (y # ys)))"

subsection \<open>\<^verbatim>\<open>getModels\<close> (lines 25 to 158)\<close>

text \<open>
  The process environment, read at each call. An unset variable is \<^verbatim>\<open>undefined\<close>,
  which a template literal prints as the word \<^verbatim>\<open>undefined\<close>.
\<close>

record env =
  LLM_UPSTREAM :: "string option"
  LLM_PROXY_PROVIDER :: "string option"

definition interpolate :: "string option \<Rightarrow> string" where
  "interpolate v = (case v of None \<Rightarrow> ''undefined'' | Some s \<Rightarrow> s)"

text \<open>Line 29: \<^verbatim>\<open>(process.env.LLM_PROXY_PROVIDER ?? '').toLowerCase()\<close>.\<close>

definition providerKeyOf :: "'n js_runtime \<Rightarrow> env \<Rightarrow> string" where
  "providerKeyOf rt e =
     toLowerCase rt (case LLM_PROXY_PROVIDER e of None \<Rightarrow> [] | Some p \<Rightarrow> p)"

text \<open>
  A request to the upstream, as the service hands it to \<^verbatim>\<open>HttpService\<close>. The body of a
  POST is the address of an object in the store (see \<open>postCompletions\<close>).
\<close>

record http_request =
  req_method :: string
  req_url :: string
  req_headers :: "(string \<times> string) list"
  req_body :: "nat option"
  req_responseType :: "string option"

text \<open>
  The inbound headers map a lower-case header name to its value.
  \<^verbatim>\<open>auth ? { Authorization: auth } : {}\<close>: a missing header and an empty one are both
  falsy.
\<close>

type_synonym inbound_headers = "string \<Rightarrow> string option"

definition authHeaders :: "inbound_headers \<Rightarrow> (string \<times> string) list" where
  "authHeaders headers =
     (case headers ''authorization'' of
        None \<Rightarrow> []
      | Some auth \<Rightarrow> if auth \<noteq> [] then [(''Authorization'', auth)] else [])"

text \<open>Lines 26 to 36: the upstream call of \<^verbatim>\<open>getModels\<close>.\<close>

definition getModels_request :: "env \<Rightarrow> inbound_headers \<Rightarrow> http_request" where
  "getModels_request e headers =
     \<lparr>req_method = ''GET'',
      req_url = interpolate (LLM_UPSTREAM e) @ ''/backend-api/v2/models'',
      req_headers = authHeaders headers,
      req_body = None,
      req_responseType = None\<rparr>"

text \<open>The two messages of lines 115 and 142.\<close>

definition noModelsFoundMsg :: "string \<Rightarrow> string option \<Rightarrow> string \<Rightarrow> string" where
  "noModelsFoundMsg providerKey upstream sample =
     ''No models found for provider '' @ [CHR 0x27] @ providerKey @ [CHR 0x27]
       @ '' from upstream '' @ interpolate upstream
       @ ''. Upstream response shape: '' @ sample"

definition noModelsMatchedMsg :: "string \<Rightarrow> string option \<Rightarrow> string \<Rightarrow> string" where
  "noModelsMatchedMsg providerKey upstream sample =
     ''No models matched provider '' @ [CHR 0x27] @ providerKey @ [CHR 0x27]
       @ '' in upstream '' @ interpolate upstream
       @ ''. Sample upstream models: '' @ sample"

text \<open>Lines 43 to 157, from \<^verbatim>\<open>resp.data\<close> to the result or the exception.\<close>

definition getModels_respond ::
  "('n::zero) js_runtime \<Rightarrow> env \<Rightarrow> 'n jsval \<Rightarrow> error + 'n jsval" where
  "getModels_respond rt e data =
     ebind (normalize rt data) (\<lambda>models.
       if models = [] then
         Inl (NotFoundException
               (noModelsFoundMsg (providerKeyOf rt e) (LLM_UPSTREAM e)
                  (safeStringify rt data 1000)))
       else
         ebind (filterModels rt (providerKeyOf rt e) models) (\<lambda>filteredModels.
           if filteredModels = [] then
             Inl (NotFoundException
                   (noModelsMatchedMsg (providerKeyOf rt e) (LLM_UPSTREAM e)
                      (safeStringify rt (JArr (take 5 models)) 1000)))
           else
             ebind (mapE (renderModel rt) filteredModels) (\<lambda>rendered.
               Inr (JObj [(''object'', JStr ''list''), (''data'', JArr rendered)]))))"


subsection \<open>\<^verbatim>\<open>getProviders\<close> (lines 160 to 166)\<close>

definition getProviders_request :: "env \<Rightarrow> http_request" where
  "getProviders_request e =
     \<lparr>req_method = ''GET'',
      req_url = interpolate (LLM_UPSTREAM e) @ ''/v1/providers'',
      req_headers = [],
      req_body = None,
      req_responseType = None\<rparr>"

definition getProviders :: "env \<Rightarrow> (http_request \<Rightarrow> string + 'a) \<Rightarrow> error + 'a" where
  "getProviders e http =
     (case http (getProviders_request e) of
        Inl failure \<Rightarrow> Inl (UpstreamFailure failure)
      | Inr data \<Rightarrow> Inr data)"

subsection \<open>\<^verbatim>\<open>postCompletions\<close> (lines 168 to 187)\<close>

text \<open>
  The request body is an object shared with the caller, so objects live in a store:
  an address gives the own properties of the object there. The controller passes
  \<^verbatim>\<open>req.body\<close>, which is an object or, when no body was parsed, \<^verbatim>\<open>undefined\<close>.
\<close>

type_synonym 'n store = "nat \<Rightarrow> (string \<times> 'n jsval) list"

datatype body_arg = BodyObject nat | BodyUndefined

text \<open>Line 172: the variable may be unset, and the value assigned is then \<^verbatim>\<open>undefined\<close>.\<close>

definition envValue :: "string option \<Rightarrow> 'n jsval" where
  "envValue v = (case v of None \<Rightarrow> JUndefined | Some s \<Rightarrow> JStr s)"

text \<open>
  Line 175 writes the store, lines 177 to 185 build the request, whose body is the same
  address. The relay of the response stream is not modelled.
\<close>

definition postCompletions ::
  "env \<Rightarrow> 'n store \<Rightarrow> body_arg \<Rightarrow> inbound_headers \<Rightarrow> error + ('n store \<times> http_request)" where
  "postCompletions e store body headers =
     (case body of
        BodyUndefined \<Rightarrow> Inl TypeError
      | BodyObject a \<Rightarrow>
          Inr (store(a := upsert ''provider'' (envValue (LLM_PROXY_PROVIDER e)) (store a)),
               \<lparr>req_method = ''POST'',
                req_url = interpolate (LLM_UPSTREAM e) @ ''/v1/chat/completions'',
                req_headers =
                  [(''Accept'', ''application/json''),
                   (''Content-Type'', ''application/json'')] @ authHeaders headers,
                req_body = Some a,
                req_responseType = Some ''stream''\<rparr>))"

subsection \<open>The controller (\<^verbatim>\<open>src/app.controller.ts\<close>)\<close>

text \<open>
  The three routes. \<^verbatim>\<open>getModels\<close> hands the inbound headers to the service,
  \<^verbatim>\<open>getProviders\<close> hands it nothing, \<^verbatim>\<open>postCompletions\<close> hands it the inbound body and
  headers. \<open>upstreamRequest\<close> is the request the handler of a route sends upstream.
\<close>

datatype route = GetModels | GetProviders | PostCompletions

record inbound_request =
  in_headers :: inbound_headers
  in_body :: body_arg

definition upstreamRequest ::
  "env \<Rightarrow> 'n store \<Rightarrow> route \<Rightarrow> inbound_request \<Rightarrow> error + http_request" where
  "upstreamRequest e store r req =
     (case r of
        GetModels \<Rightarrow> Inr (getModels_request e (in_headers req))
      | GetProviders \<Rightarrow> Inr (getProviders_request e)
      | PostCompletions \<Rightarrow>
          ebind (postCompletions e store (in_body req) (in_headers req)) (\<lambda>(store', request).
            Inr request))"

section \<open>The specification's notions\<close>

text \<open>
  The shapes the specification tells apart, and its detection order: the first rule
  that applies decides.
\<close>

datatype shape =
    Sequence
  | ObjectWithModelsField
  | ObjectWithDataField
  | EncodedString
  | ProviderKeyedMap
  | Unrecognized

fun isObject :: "'n jsval \<Rightarrow> bool" where
  "isObject (JObj kvs) = True"
| "isObject v = False"

fun isString :: "'n jsval \<Rightarrow> bool" where
  "isString (JStr s) = True"
| "isString v = False"

text \<open>The field \<open>k\<close> of a value: \<^verbatim>\<open>undefined\<close> unless the value is an object with that key.\<close>

fun fieldOf :: "'n jsval \<Rightarrow> string \<Rightarrow> 'n jsval" where
  "fieldOf (JObj kvs) k = (case map_of kvs k of None \<Rightarrow> JUndefined | Some v \<Rightarrow> v)"
| "fieldOf v k = JUndefined"

definition detectShape :: "'n jsval \<Rightarrow> shape" where
  "detectShape raw =
     (if isArray raw then Sequence
      else if isObject raw \<and> isArray (fieldOf raw ''models'') then ObjectWithModelsField
      else if isObject raw \<and> isArray (fieldOf raw ''data'') then ObjectWithDataField
      else if isString raw then EncodedString
      else if isObject raw \<and>
              list_all (\<lambda>v. isArray v \<and> list_all isString (arrayItems v))
                (map snd (Object_entries raw))
        then ProviderKeyedMap
      else Unrecognized)"

text \<open>
  Normalisation as the specification words it: by shape, a parsed string going
  through rules (1) to (3) only.
\<close>

definition normalize_spec :: "'n js_runtime \<Rightarrow> 'n jsval \<Rightarrow> 'n jsval list" where
  "normalize_spec rt raw =
     (case detectShape raw of
        Sequence \<Rightarrow> arrayItems raw
      | ObjectWithModelsField \<Rightarrow> arrayItems (fieldOf raw ''models'')
      | ObjectWithDataField \<Rightarrow> arrayItems (fieldOf raw ''data'')
      | EncodedString \<Rightarrow>
          (case JSON_parse rt (stringOf raw) of
             None \<Rightarrow> []
           | Some parsed \<Rightarrow>
               (case detectShape parsed of
                  Sequence \<Rightarrow> arrayItems parsed
                | ObjectWithModelsField \<Rightarrow> arrayItems (fieldOf parsed ''models'')
                | ObjectWithDataField \<Rightarrow> arrayItems (fieldOf parsed ''data'')
                | EncodedString \<Rightarrow> []
                | ProviderKeyedMap \<Rightarrow> []
                | Unrecognized \<Rightarrow> []))
      | ProviderKeyedMap \<Rightarrow> modelObjects (addProviders (Object_entries raw) [])
      | Unrecognized \<Rightarrow> [])"

text \<open>
  The providers that reference a model name in a provider-keyed payload: the keys in
  the order of the object, each once for every time its list names the model.
\<close>

definition referencingProviders :: "(string \<times> 'n jsval) list \<Rightarrow> string \<Rightarrow> string list" where
  "referencingProviders kvs name =
     concat (map (\<lambda>(p, v). replicate (count_list (arrayItems v) (JStr name)) p) kvs)"

text \<open>\<^verbatim>\<open>modelMap.get(modelName) || []\<close>, as a function of the map and the name.\<close>

definition providersSoFar :: "modelMap \<Rightarrow> string \<Rightarrow> string list" where
  "providersSoFar m name = (case map_of m name of None \<Rightarrow> [] | Some ps \<Rightarrow> ps)"


section \<open>A runtime for evaluating the service on concrete inputs\<close>

text \<open>
  ASCII lower-casing: \<^verbatim>\<open>toLowerCase\<close> restricted to the letters \<^verbatim>\<open>A\<close> to \<^verbatim>\<open>Z\<close>.
\<close>

definition ascii_lower_char :: "char \<Rightarrow> char" where
  "ascii_lower_char c =
     (case map_of (zip ''ABCDEFGHIJKLMNOPQRSTUVWXYZ'' ''abcdefghijklmnopqrstuvwxyz'') c of
        None \<Rightarrow> c
      | Some l \<Rightarrow> l)"

definition ascii_lower :: "string \<Rightarrow> string" where
  "ascii_lower s = map ascii_lower_char s"

text \<open>
  A serialiser that agrees with \<^verbatim>\<open>JSON.stringify\<close> on trees whose numbers are integers
  and whose strings hold printable ASCII: \<^verbatim>\<open>undefined\<close> prints as \<^verbatim>\<open>null\<close> inside an
  array and drops its key inside an object.
\<close>

fun show_nat :: "nat \<Rightarrow> string" where
  "show_nat n =
     (if n < 10 then [''0123456789'' ! n]
      else show_nat (n div 10) @ [''0123456789'' ! (n mod 10)])"

definition show_int :: "int \<Rightarrow> string" where
  "show_int i = (if i < 0 then ''-'' @ show_nat (nat (- i)) else show_nat (nat i))"

definition show_string :: "string \<Rightarrow> string" where
  "show_string s =
     [CHR 0x22]
       @ concat (map (\<lambda>c. if c = CHR 0x22 \<or> c = CHR 0x5C then [CHR 0x5C, c] else [c]) s)
       @ [CHR 0x22]"

fun commas :: "string list \<Rightarrow> string" where
  "commas [] = []"
| "commas [s] = s"
| "commas (s # t # ts) = s @ '','' @ commas (t # ts)"

fun show_json :: "int jsval \<Rightarrow> string"
  and show_items :: "int jsval list \<Rightarrow> string list"
  and show_members :: "(string \<times> int jsval) list \<Rightarrow> string list" where
  "show_json JUndefined = ''null''"
| "show_json JNull = ''null''"
| "show_json (JBool b) = (if b then ''true'' else ''false'')"
| "show_json (JNum i) = show_int i"
| "show_json (JStr s) = show_string s"
| "show_json (JArr xs) = ''['' @ commas (show_items xs) @ '']''"
| "show_json (JObj kvs) = ''{'' @ commas (show_members kvs) @ ''}''"
| "show_items [] = []"
| "show_items (x # xs) = show_json x # show_items xs"
| "show_members [] = []"
| "show_members ((k, v) # kvs) =
     (if v = JUndefined then show_members kvs
      else (show_string k @ '':'' @ show_json v) # show_members kvs)"

text \<open>
  The documents the examples below send as text. The parser of the test runtime reads
  back exactly their serialisations; any other text is malformed for it.
\<close>

definition test_documents :: "int jsval list" where
  "test_documents =
     [JArr [JObj [(''name'', JStr ''gpt-4''), (''providers'', JArr [JStr ''OpenaiAPI''])]],
      JObj [(''models'',
             JArr [JObj [(''name'', JStr ''gpt-4''), (''providers'', JStr ''OpenaiAPI'')]])],
      JObj [(''data'',
             JArr [JObj [(''name'', JStr ''gpt-4''), (''providers'', JArr [JStr ''OpenaiAPI''])]])],
      JObj [(''OpenaiAPI'', JArr [JStr ''gpt-4''])],
      JStr ''gpt-4'']"

definition test_parse :: "string \<Rightarrow> int jsval option" where
  "test_parse s = List.find (\<lambda>v. show_json v = s) test_documents"

definition test_runtime :: "int js_runtime" where
  "test_runtime =
     \<lparr>toLowerCase = ascii_lower,
      JSON_parse = test_parse,
      JSON_stringify = show_json,
      Number_toString = show_int,
      Number_falsy = (\<lambda>i. i = 0)\<rparr>"

section \<open>Inputs of the examples\<close>

text \<open>
  The environment and the first payload of \<^verbatim>\<open>app.service.spec.ts\<close>, the same payload with
  its two keys in the other order, a payload whose only provider is called
  \<^verbatim>\<open>models\<close>, and one whose provider lists a model twice.
\<close>

definition test_env :: env where
  "test_env = \<lparr>LLM_UPSTREAM = Some ''http://test-upstream'', LLM_PROXY_PROVIDER = Some ''OpenaiAPI''\<rparr>"

definition scenarioA :: "(string \<times> int jsval) list" where
  "scenarioA =
     [(''Anthropic'', JArr [JStr ''claude-3-opus'', JStr ''claude-3-sonnet'']),
      (''OpenaiAPI'', JArr [JStr ''gpt-4'', JStr ''claude-3-opus''])]"

definition scenarioA_swapped :: "(string \<times> int jsval) list" where
  "scenarioA_swapped =
     [(''OpenaiAPI'', JArr [JStr ''gpt-4'', JStr ''claude-3-opus'']),
      (''Anthropic'', JArr [JStr ''claude-3-opus'', JStr ''claude-3-sonnet''])]"

definition modelsKeyPayload :: "(string \<times> int jsval) list" where
  "modelsKeyPayload = [(''models'', JArr [JStr ''m''])]"

definition repeatedModelPayload :: "(string \<times> int jsval) list" where
  "repeatedModelPayload = [(''A'', JArr [JStr ''m'', JStr ''m''])]"


text \<open>
  Inbound requests: one with a bearer token, one whose \<^verbatim>\<open>Authorization\<close> header is
  empty, one without the header. Their body is the object at address 0 of the store.
\<close>

definition bearer_headers :: inbound_headers where
  "bearer_headers = Map.empty(''authorization'' \<mapsto> ''Bearer test'')"

definition empty_auth_headers :: inbound_headers where
  "empty_auth_headers = Map.empty(''authorization'' \<mapsto> [])"

definition test_store :: "int store" where
  "test_store a =
     (if a = 0 then [(''model'', JStr ''gpt-4''), (''provider'', JStr ''Other''),
                     (''stream'', JBool True)]
      else [])"

definition bearer_request :: inbound_request where
  "bearer_request = \<lparr>in_headers = bearer_headers, in_body = BodyObject 0\<rparr>"

definition empty_auth_request :: inbound_request where
  "empty_auth_request = \<lparr>in_headers = empty_auth_headers, in_body = BodyObject 0\<rparr>"

definition plain_request :: inbound_request where
  "plain_request = \<lparr>in_headers = Map.empty, in_body = BodyObject 0\<rparr>"

section \<open>Facts about the model\<close>

subsection \<open>Tables\<close>

lemma typeof_string_iff: "typeof v = ''string'' \<longleftrightarrow> (\<exists>s. v = JStr s)"
  by (cases v) simp_all

lemma map_of_upsert: "map_of (upsert k v kvs) = (map_of kvs)(k \<mapsto> v)"
  by (induction kvs) auto

lemma keys_upsert:
  "map fst (upsert k v kvs) = (if k \<in> fst ` set kvs then map fst kvs else map fst kvs @ [k])"
  by (induction kvs) (auto simp: rev_image_eqI)

lemma distinct_upsert: "distinct (map fst kvs) \<Longrightarrow> distinct (map fst (upsert k v kvs))"
  by (simp add: keys_upsert)

lemma upsert_other: "filter (\<lambda>kv. fst kv \<noteq> k) (upsert k v kvs) = filter (\<lambda>kv. fst kv \<noteq> k) kvs"
  by (induction kvs) auto

lemma map_of_absent: "k \<notin> fst ` set kvs \<Longrightarrow> map_of kvs k = None"
  by (simp add: map_of_eq_None_iff)

subsection \<open>The two loops of the provider-keyed branch\<close>

lemma addModelNames_distinct:
  "distinct (map fst m) \<Longrightarrow> distinct (map fst (addModelNames p xs m))"
  by (induction xs arbitrary: m) (simp_all add: distinct_upsert Let_def)

lemma addProviders_distinct:
  "distinct (map fst m) \<Longrightarrow> distinct (map fst (addProviders kvs m))"
  by (induction kvs arbitrary: m) (auto simp: addModelNames_distinct)

lemma addModelNames_map_of:
  "map_of (addModelNames p xs m) name =
     (if count_list xs (JStr name) = 0 then map_of m name
      else Some (providersSoFar m name @ replicate (count_list xs (JStr name)) p))"
proof (induction xs arbitrary: m)
  case Nil
  show ?case by simp
next
  case (Cons x xs)
  show ?case
  proof (cases "typeof x = ''string''")
    case False
    then have "x \<noteq> JStr name" by auto
    with False Cons show ?thesis by simp
  next
    case True
    then obtain s where x: "x = JStr s" by (auto simp: typeof_string_iff)
    show ?thesis
    proof (cases "s = name")
      case True
      with x Cons show ?thesis
        by (simp add: map_of_upsert providersSoFar_def replicate_app_Cons_same)
    next
      case False
      with x Cons show ?thesis
        by (simp add: map_of_upsert providersSoFar_def)
    qed
  qed
qed

lemma referencingProviders_Nil: "referencingProviders [] name = []"
  by (simp add: referencingProviders_def)

lemma referencingProviders_Cons:
  "referencingProviders ((p, v) # kvs) name =
     replicate (count_list (arrayItems v) (JStr name)) p @ referencingProviders kvs name"
  by (simp add: referencingProviders_def)

lemma addProviders_map_of:
  "map_of (addProviders kvs m) name =
     (if referencingProviders kvs name = [] then map_of m name
      else Some (providersSoFar m name @ referencingProviders kvs name))"
proof (induction kvs arbitrary: m)
  case Nil
  show ?case by (simp add: referencingProviders_Nil)
next
  case (Cons kv kvs)
  obtain p v where kv: "kv = (p, v)" by (cases kv)
  show ?case
  proof (cases "isArray v")
    case True
    show ?thesis
      unfolding kv
      by (simp add: True Cons referencingProviders_Cons addModelNames_map_of providersSoFar_def)
  next
    case False
    then have "arrayItems v = []" by (cases v) simp_all
    with False show ?thesis
      unfolding kv by (simp add: Cons referencingProviders_Cons)
  qed
qed

lemma referencingProviders_empty_iff:
  "referencingProviders kvs name = [] \<longleftrightarrow>
     (\<forall>(p, v) \<in> set kvs. JStr name \<notin> set (arrayItems v))"
  by (induction kvs) (auto simp: referencingProviders_Nil referencingProviders_Cons count_list_0_iff)

lemma set_referencingProviders:
  "set (referencingProviders kvs name) = {p. \<exists>v. (p, v) \<in> set kvs \<and> JStr name \<in> set (arrayItems v)}"
  by (induction kvs) (auto simp: referencingProviders_Nil referencingProviders_Cons count_list_0_iff)

lemma count_list_distinct:
  "distinct xs \<Longrightarrow> count_list xs x = (if x \<in> set xs then 1 else 0)"
  by (induction xs) auto

lemma referencingProviders_distinct_lists:
  "\<forall>(p, v) \<in> set kvs. distinct (arrayItems v) \<Longrightarrow>
     referencingProviders kvs name =
       map fst (filter (\<lambda>(p, v). JStr name \<in> set (arrayItems v)) kvs)"
  by (induction kvs)
     (auto simp: referencingProviders_Nil referencingProviders_Cons count_list_distinct)

subsection \<open>Normalisation follows the shape\<close>

lemma get_prop_fieldOf: "v \<noteq> JUndefined \<Longrightarrow> v \<noteq> JNull \<Longrightarrow> get_prop v k = Inr (fieldOf v k)"
  by (cases v) simp_all

lemma get_prop_error: "get_prop v k = Inl err \<Longrightarrow> err = TypeError"
  by (cases v) simp_all

lemma get_prop_Inr: "get_prop v k = Inr x \<Longrightarrow> v \<noteq> JUndefined \<and> v \<noteq> JNull \<and> x = fieldOf v k"
  by (cases v) auto

lemma hasArrayProp_eq: "hasArrayProp rt v k = Inr (isObject v \<and> isArray (fieldOf v k))"
  by (cases v) (simp_all add: hasArrayProp_def ebind_def)

lemma arrayProp_eq: "isObject v \<Longrightarrow> arrayProp v k = Inr (arrayItems (fieldOf v k))"
  by (cases v) (simp_all add: arrayProp_def ebind_def)

lemma isString_typeof: "isString = (\<lambda>v. typeof v = ''string'')"
proof
  fix v :: "'a jsval"
  show "isString v = (typeof v = ''string'')" by (cases v) simp_all
qed

lemma isProviderKeyedFormat_eq:
  "isProviderKeyedFormat v =
     list_all (\<lambda>v. isArray v \<and> list_all isString (arrayItems v)) (map snd (Object_entries v))"
  by (simp add: isProviderKeyedFormat_def Object_values_def isString_typeof)

lemma parsedModels_eq:
  "parsedModels rt s =
     (case JSON_parse rt s of
        None \<Rightarrow> Inl SyntaxError
      | Some parsed \<Rightarrow>
          Inr (case detectShape parsed of
                 Sequence \<Rightarrow> arrayItems parsed
               | ObjectWithModelsField \<Rightarrow> arrayItems (fieldOf parsed ''models'')
               | ObjectWithDataField \<Rightarrow> arrayItems (fieldOf parsed ''data'')
               | EncodedString \<Rightarrow> []
               | ProviderKeyedMap \<Rightarrow> []
               | Unrecognized \<Rightarrow> []))"
  by (simp add: parsedModels_def hasArrayProp_eq arrayProp_eq ebind_def detectShape_def
        split: option.split)

lemma normalize_refines: "normalize rt raw = Inr (normalize_spec rt raw)"
proof (cases raw)
  case (JStr s)
  then show ?thesis
    by (simp add: normalize_def normalize_spec_def hasArrayProp_eq ebind_def detectShape_def
          parsedModels_eq split: option.split)
next
  case (JObj kvs)
  then show ?thesis
    by (simp add: normalize_def normalize_spec_def hasArrayProp_eq arrayProp_eq ebind_def
          detectShape_def isProviderKeyedFormat_eq)
qed (simp_all add: normalize_def normalize_spec_def hasArrayProp_eq ebind_def detectShape_def)

lemma normalize_obj:
  "normalize rt (JObj kvs) =
     Inr (if isArray (fieldOf (JObj kvs) ''models'') then arrayItems (fieldOf (JObj kvs) ''models'')
          else if isArray (fieldOf (JObj kvs) ''data'') then arrayItems (fieldOf (JObj kvs) ''data'')
          else if isProviderKeyedFormat (JObj kvs) then modelObjects (addProviders kvs [])
          else [])"
  by (simp add: normalize_refines normalize_spec_def detectShape_def isProviderKeyedFormat_eq)

lemma normalize_provider_keyed:
  assumes "isProviderKeyedFormat (JObj kvs)"
    and "''models'' \<notin> fst ` set kvs" and "''data'' \<notin> fst ` set kvs"
  shows "normalize rt (JObj kvs) = Inr (modelObjects (addProviders kvs []))"
  using assms by (simp add: normalize_obj map_of_absent)

subsection \<open>The records of the provider-keyed branch\<close>

lemma modelObjects_Cons:
  "modelObjects ((k, ps) # m) =
     JObj [(''name'', JStr k), (''providers'', JArr (map JStr ps))] # modelObjects m"
  by (simp add: modelObjects_def)

lemma filter_modelObjects:
  "distinct (map fst m) \<Longrightarrow>
     filter (\<lambda>r. get_prop r ''name'' = Inr (JStr name)) (modelObjects m) =
       (case map_of m name of
          None \<Rightarrow> []
        | Some ps \<Rightarrow> [JObj [(''name'', JStr name), (''providers'', JArr (map JStr ps))]])"
proof (induction m)
  case Nil
  show ?case by (simp add: modelObjects_def)
next
  case (Cons kv m)
  obtain k ps where kv: "kv = (k, ps)" by (cases kv)
  from Cons.prems have fresh: "k \<notin> fst ` set m" and dist: "distinct (map fst m)"
    by (simp_all add: kv)
  note IH = Cons.IH [OF dist]
  show ?case
  proof (cases "k = name")
    case True
    with fresh have "map_of m name = None" by (simp add: map_of_absent)
    with IH True show ?thesis by (simp add: modelObjects_Cons kv)
  next
    case False
    with IH show ?thesis by (simp add: modelObjects_Cons kv)
  qed
qed

lemma inversion_entry:
  "filter (\<lambda>r. get_prop r ''name'' = Inr (JStr name)) (modelObjects (addProviders kvs [])) =
     (if referencingProviders kvs name = [] then []
      else [JObj [(''name'', JStr name),
                  (''providers'', JArr (map JStr (referencingProviders kvs name)))]])"
proof -
  have "distinct (map fst (addProviders kvs []))"
    by (rule addProviders_distinct) simp
  then show ?thesis
    by (simp add: filter_modelObjects addProviders_map_of providersSoFar_def)
qed

lemma length_modelObjects: "length (modelObjects m) = length m"
  by (simp add: modelObjects_def)

lemma names_modelObjects:
  "(\<lambda>r. get_prop r ''name'') ` set (modelObjects m) = (\<lambda>k. Inr (JStr k)) ` fst ` set m"
  by (force simp: modelObjects_def image_iff)

lemma keys_addProviders:
  "fst ` set (addProviders kvs []) =
     {name. \<exists>(p, v) \<in> set kvs. JStr name \<in> set (arrayItems v)}"
proof -
  have "fst ` set (addProviders kvs []) = dom (map_of (addProviders kvs []))"
    by (simp add: dom_map_of_conv_image_fst)
  also have "\<dots> = {name. referencingProviders kvs name \<noteq> []}"
    by (auto simp: dom_def addProviders_map_of)
  also have "\<dots> = {name. \<exists>(p, v) \<in> set kvs. JStr name \<in> set (arrayItems v)}"
    by (auto simp: referencingProviders_empty_iff)
  finally show ?thesis .
qed

lemma length_addProviders:
  "length (addProviders kvs []) =
     card {name. \<exists>(p, v) \<in> set kvs. JStr name \<in> set (arrayItems v)}"
proof -
  have d: "distinct (map fst (addProviders kvs []))"
    by (rule addProviders_distinct) simp
  have "length (addProviders kvs []) = length (map fst (addProviders kvs []))" by simp
  also have "\<dots> = card (set (map fst (addProviders kvs [])))"
    using d by (simp only: distinct_card)
  also have "\<dots> = card {name. \<exists>(p, v) \<in> set kvs. JStr name \<in> set (arrayItems v)}"
    by (simp add: keys_addProviders)
  finally show ?thesis .
qed

lemma perm_same_object:
  assumes d: "distinct (map fst kvs)" and p: "mset kvs' = mset kvs"
  shows "map_of kvs' = map_of kvs" and "set kvs' = set kvs"
proof -
  from p show s: "set kvs' = set kvs" by (rule mset_eq_setD)
  from p have "mset (map fst kvs') = mset (map fst kvs)" by simp
  with d have "distinct (map fst kvs')" by (metis mset_eq_imp_distinct_iff)
  with d s show "map_of kvs' = map_of kvs" by (simp add: map_of_inject_set)
qed

subsection \<open>Filtering and rendering\<close>

lemma js_String_error:
  "js_String rt v = Inl err \<Longrightarrow> err = TypeError"
  "js_join rt vs = Inl err \<Longrightarrow> err = TypeError"
  by (induction rt v and rt vs rule: js_String_js_join.induct)
     (auto simp: ebind_def split: if_splits sum.splits)

lemma someMatch_error: "someMatch rt key ps = Inl err \<Longrightarrow> err = TypeError"
  by (induction ps) (auto simp: ebind_def split: sum.splits if_splits dest: js_String_error)


lemma matchesProvider_error: "matchesProvider rt key m = Inl err \<Longrightarrow> err = TypeError"
  by (auto simp: matchesProvider_def ebind_def split: sum.splits
        dest: get_prop_error someMatch_error)

lemma matchesProvider_Inr:
  "matchesProvider rt key m = Inr b \<Longrightarrow>
     m \<noteq> JUndefined \<and> m \<noteq> JNull \<and>
     someMatch rt key (providersOf rt (fieldOf m ''providers'')) = Inr b"
  by (auto simp: matchesProvider_def ebind_def split: sum.splits dest: get_prop_Inr)

lemma filterModels_error: "filterModels rt key ms = Inl err \<Longrightarrow> err = TypeError"
  by (induction ms arbitrary: err)
     (auto simp: ebind_def split: sum.splits dest: matchesProvider_error)

lemma filterModels_Inr:
  "filterModels rt key ms = Inr kept \<Longrightarrow>
     kept = filter (\<lambda>m. matchesProvider rt key m = Inr True) ms \<and>
     (\<forall>m \<in> set ms. \<exists>b. matchesProvider rt key m = Inr b)"
  by (induction ms arbitrary: kept) (auto simp: ebind_def split: sum.splits)

lemma renderModel_eq:
  "m \<noteq> JUndefined \<Longrightarrow> m \<noteq> JNull \<Longrightarrow>
     renderModel rt m =
       Inr (JObj [(''id'', fieldOf m ''name''),
                  (''object'', JStr ''model''),
                  (''created'', JNum 0),
                  (''owned_by'', JStr []),
                  (''image'', if truthy rt (fieldOf m ''image'') then fieldOf m ''image''
                              else JBool False),
                  (''provider'', JBool True)])"
  by (simp add: renderModel_def get_prop_fieldOf ebind_def js_or_def)

lemma mapE_Inr: "\<forall>x \<in> set xs. f x = Inr (g x) \<Longrightarrow> mapE f xs = Inr (map g xs)"
  by (induction xs) (simp_all add: ebind_def)

lemma kept_not_nullish:
  assumes "filterModels rt key ms = Inr kept" and "m \<in> set kept"
  shows "m \<noteq> JUndefined \<and> m \<noteq> JNull"
proof -
  from assms have "matchesProvider rt key m = Inr True"
    by (auto dest!: filterModels_Inr)
  then show ?thesis by (auto dest: matchesProvider_Inr)
qed

lemma respond_cases:
  "getModels_respond rt e data =
     (if normalize_spec rt data = [] then
        Inl (NotFoundException
              (noModelsFoundMsg (providerKeyOf rt e) (LLM_UPSTREAM e)
                 (safeStringify rt data 1000)))
      else case filterModels rt (providerKeyOf rt e) (normalize_spec rt data) of
        Inl err \<Rightarrow> Inl TypeError
      | Inr kept \<Rightarrow>
          if kept = [] then
            Inl (NotFoundException
                  (noModelsMatchedMsg (providerKeyOf rt e) (LLM_UPSTREAM e)
                     (safeStringify rt (JArr (take 5 (normalize_spec rt data))) 1000)))
          else
            Inr (JObj [(''object'', JStr ''list''),
                       (''data'', JArr (map (\<lambda>r.
                          JObj [(''id'', fieldOf r ''name''),
                                (''object'', JStr ''model''),
                                (''created'', JNum 0),
                                (''owned_by'', JStr []),
                                (''image'', if truthy rt (fieldOf r ''image'')
                                            then fieldOf r ''image'' else JBool False),
                                (''provider'', JBool True)]) kept))]))"
proof (cases "filterModels rt (providerKeyOf rt e) (normalize_spec rt data)")
  case (Inl err)
  then have "err = TypeError" by (rule filterModels_error)
  with Inl show ?thesis
    by (simp add: getModels_respond_def normalize_refines ebind_def)
next
  case (Inr kept)
  then have "\<forall>m \<in> set kept. m \<noteq> JUndefined \<and> m \<noteq> JNull"
    by (blast dest: kept_not_nullish)
  then have "mapE (renderModel rt) kept =
      Inr (map (\<lambda>r.
            JObj [(''id'', fieldOf r ''name''),
                  (''object'', JStr ''model''),
                  (''created'', JNum 0),
                  (''owned_by'', JStr []),
                  (''image'', if truthy rt (fieldOf r ''image'')
                              then fieldOf r ''image'' else JBool False),
                  (''provider'', JBool True)]) kept)"
    by (intro mapE_Inr) (simp add: renderModel_eq)
  with Inr show ?thesis
    by (simp add: getModels_respond_def normalize_refines ebind_def)
qed


subsection \<open>Upstream requests\<close>

lemma authHeaders_cases:
  "authHeaders headers =
     (if headers ''authorization'' = None \<or> headers ''authorization'' = Some [] then []
      else [(''Authorization'', the (headers ''authorization''))])"
  by (simp add: authHeaders_def split: option.split)

lemma upstreamRequest_headers:
  "upstreamRequest e store r req = Inr request \<Longrightarrow>
     req_headers request =
       (case r of
          GetModels \<Rightarrow> authHeaders (in_headers req)
        | GetProviders \<Rightarrow> []
        | PostCompletions \<Rightarrow>
            [(''Accept'', ''application/json''), (''Content-Type'', ''application/json'')]
              @ authHeaders (in_headers req))"
  by (cases r; cases "in_body req")
     (auto simp: upstreamRequest_def getModels_request_def getProviders_request_def
        postCompletions_def ebind_def)

subsection \<open>When the filter returns\<close>










subsection \<open>The messages and the outcome of the operation\<close>






section \<open>The claims\<close>

subsection \<open>C1: the provider-keyed inversion\<close>

text \<open>
  Claim C1, as amended. For every provider-keyed payload that has no key \<^verbatim>\<open>models\<close> and no
  key \<^verbatim>\<open>data\<close>, a model name referenced under providers P1..Pn appears exactly once in
  the canonical list, as the record \<^verbatim>\<open>{name, providers}\<close> whose providers are P1..Pn in
  the order in which the object enumerates them, a provider standing once for each
  time its list names the model. As a set the providers are exactly the keys whose list
  names the model, and when no list repeats a name they are exactly those keys, each
  once. The payload is arbitrary, so this holds whichever provider comes first.
\<close>

theorem provider_keyed_inversion:
  assumes "isProviderKeyedFormat (JObj kvs)"
    and "''models'' \<notin> fst ` set kvs" and "''data'' \<notin> fst ` set kvs"
  shows "\<exists>models. normalize rt (JObj kvs) = Inr models \<and>
     (\<forall>name. filter (\<lambda>r. get_prop r ''name'' = Inr (JStr name)) models =
        (if referencingProviders kvs name = [] then []
         else [JObj [(''name'', JStr name),
                     (''providers'', JArr (map JStr (referencingProviders kvs name)))]])) \<and>
     (\<forall>name. set (referencingProviders kvs name) =
        {p. \<exists>v. (p, v) \<in> set kvs \<and> JStr name \<in> set (arrayItems v)}) \<and>
     ((\<forall>(p, v) \<in> set kvs. distinct (arrayItems v)) \<longrightarrow>
        (\<forall>name. referencingProviders kvs name =
           map fst (filter (\<lambda>(p, v). JStr name \<in> set (arrayItems v)) kvs)))"
  using assms
  by (simp add: normalize_provider_keyed inversion_entry set_referencingProviders
        referencingProviders_distinct_lists)

text \<open>
  The theorem at the first payload of the test suite: \<^verbatim>\<open>claude-3-opus\<close> is listed by both
  providers and appears once, with both.
\<close>

theorem provider_keyed_inversion_witness:
  "isProviderKeyedFormat (JObj scenarioA) \<and>
   ''models'' \<notin> fst ` set scenarioA \<and> ''data'' \<notin> fst ` set scenarioA \<and>
   (\<exists>models. normalize test_runtime (JObj scenarioA) = Inr models \<and>
      filter (\<lambda>r. get_prop r ''name'' = Inr (JStr ''claude-3-opus'')) models =
        [JObj [(''name'', JStr ''claude-3-opus''),
               (''providers'', JArr [JStr ''Anthropic'', JStr ''OpenaiAPI''])]])"
proof -
  have h1: "isProviderKeyedFormat (JObj scenarioA)"
    by (simp add: isProviderKeyedFormat_def Object_values_def scenarioA_def)
  have h2: "''models'' \<notin> fst ` set scenarioA" by (simp add: scenarioA_def)
  have h3: "''data'' \<notin> fst ` set scenarioA" by (simp add: scenarioA_def)
  have r: "referencingProviders scenarioA ''claude-3-opus'' = [''Anthropic'', ''OpenaiAPI'']"
    by (simp add: referencingProviders_def scenarioA_def)
  from provider_keyed_inversion [OF h1 h2 h3, of test_runtime]
  obtain models where n: "normalize test_runtime (JObj scenarioA) = Inr models"
    and f: "\<forall>name. filter (\<lambda>r. get_prop r ''name'' = Inr (JStr name)) models =
        (if referencingProviders scenarioA name = [] then []
         else [JObj [(''name'', JStr name),
                     (''providers'', JArr (map JStr (referencingProviders scenarioA name)))]])"
    by (elim exE conjE)
  from f have "filter (\<lambda>r. get_prop r ''name'' = Inr (JStr ''claude-3-opus'')) models =
        [JObj [(''name'', JStr ''claude-3-opus''),
               (''providers'', JArr [JStr ''Anthropic'', JStr ''OpenaiAPI''])]]"
    by (simp add: r)
  with n have "\<exists>models. normalize test_runtime (JObj scenarioA) = Inr models \<and>
      filter (\<lambda>r. get_prop r ''name'' = Inr (JStr ''claude-3-opus'')) models =
        [JObj [(''name'', JStr ''claude-3-opus''),
               (''providers'', JArr [JStr ''Anthropic'', JStr ''OpenaiAPI''])]]"
    by (intro exI [of _ models] conjI)
  with h1 h2 h3 show ?thesis by (intro conjI)
qed

text \<open>
  C1 as stated fails on the payload \<^verbatim>\<open>{"models": ["m"]}\<close>: every value is an array of
  strings, yet the \<^verbatim>\<open>models\<close> rule takes it and the canonical list holds the bare string
  \<^verbatim>\<open>"m"\<close>, not a record. On \<^verbatim>\<open>{"A": ["m", "m"]}\<close> the provider is attached twice.
\<close>

theorem provider_keyed_inversion_counterexample:
  "isProviderKeyedFormat (JObj modelsKeyPayload) \<and>
   normalize test_runtime (JObj modelsKeyPayload) = Inr [JStr ''m''] \<and>
   isProviderKeyedFormat (JObj repeatedModelPayload) \<and>
   normalize test_runtime (JObj repeatedModelPayload) =
     Inr [JObj [(''name'', JStr ''m''), (''providers'', JArr [JStr ''A'', JStr ''A''])]]"
  by (simp add: isProviderKeyedFormat_def Object_values_def modelsKeyPayload_def
        repeatedModelPayload_def normalize_def hasArrayProp_def arrayProp_def ebind_def
        modelObjects_def)

subsection \<open>C2: the detection order\<close>

text \<open>
  Claim C2. The code normalises every payload as the specification's first-match
  detection does: array, object with an array-valued \<^verbatim>\<open>models\<close> field, object with an
  array-valued \<^verbatim>\<open>data\<close> field, string (parsed, the result going through the first three
  rules only), provider-keyed object, and the empty list otherwise. So a string that
  parses to a provider-keyed object yields the empty list, and an object with an
  array-valued \<^verbatim>\<open>models\<close> field that is also provider-keyed is handled by the
  \<^verbatim>\<open>models\<close> rule.
\<close>

theorem shape_detection_order:
  "normalize rt raw = Inr (normalize_spec rt raw) \<and>
   (JSON_parse rt s = Some parsed \<and> detectShape parsed = ProviderKeyedMap \<longrightarrow>
      normalize rt (JStr s) = Inr []) \<and>
   (isArray (fieldOf (JObj kvs) ''models'') \<and> isProviderKeyedFormat (JObj kvs) \<longrightarrow>
      detectShape (JObj kvs) = ObjectWithModelsField \<and>
      normalize rt (JObj kvs) = Inr (arrayItems (fieldOf (JObj kvs) ''models'')))"
  by (simp add: normalize_refines normalize_spec_def detectShape_def)

text \<open>
  The theorem at the text of \<^verbatim>\<open>{"OpenaiAPI": ["gpt-4"]}\<close> and at the object
  \<^verbatim>\<open>{"models": ["m"]}\<close>.
\<close>

theorem shape_detection_order_witness:
  "JSON_parse test_runtime (show_json (JObj [(''OpenaiAPI'', JArr [JStr ''gpt-4''])])) =
     Some (JObj [(''OpenaiAPI'', JArr [JStr ''gpt-4''])]) \<and>
   detectShape (JObj [(''OpenaiAPI'', JArr [JStr ''gpt-4''])] :: int jsval) = ProviderKeyedMap \<and>
   normalize test_runtime (JStr (show_json (JObj [(''OpenaiAPI'', JArr [JStr ''gpt-4''])]))) =
     Inr [] \<and>
   isArray (fieldOf (JObj modelsKeyPayload) ''models'') \<and>
   isProviderKeyedFormat (JObj modelsKeyPayload) \<and>
   detectShape (JObj modelsKeyPayload) = ObjectWithModelsField \<and>
   normalize test_runtime (JObj modelsKeyPayload) = Inr [JStr ''m'']"
proof -
  let ?D = "JObj [(''OpenaiAPI'', JArr [JStr ''gpt-4''])] :: int jsval"
  have p: "JSON_parse test_runtime (show_json ?D) = Some ?D"
    by (simp add: test_runtime_def test_parse_def test_documents_def show_string_def)
  have d: "detectShape ?D = ProviderKeyedMap"
    by (simp add: detectShape_def)
  have a: "isArray (fieldOf (JObj modelsKeyPayload) ''models'')"
    by (simp add: modelsKeyPayload_def)
  have k: "isProviderKeyedFormat (JObj modelsKeyPayload)"
    by (simp add: isProviderKeyedFormat_def Object_values_def modelsKeyPayload_def)
  have i: "arrayItems (fieldOf (JObj modelsKeyPayload) ''models'') = [JStr ''m'']"
    by (simp add: modelsKeyPayload_def)
  note t = shape_detection_order [of test_runtime _ "show_json ?D" ?D modelsKeyPayload]
  from t p d have s: "normalize test_runtime (JStr (show_json ?D)) = Inr []" by blast
  from t a k have m: "detectShape (JObj modelsKeyPayload) = ObjectWithModelsField"
    and n: "normalize test_runtime (JObj modelsKeyPayload) =
      Inr (arrayItems (fieldOf (JObj modelsKeyPayload) ''models''))"
    by blast+
  from n have n': "normalize test_runtime (JObj modelsKeyPayload) = Inr [JStr ''m'']"
    by (simp only: i)
  from p d s a k m n' show ?thesis by (intro conjI)
qed

subsection \<open>C3: the two not-found failures\<close>




subsection \<open>C4: nothing escapes normalisation or \<^verbatim>\<open>safeStringify\<close>\<close>

text \<open>
  Claim C4. Normalisation returns a list for every payload, and the empty list for every
  payload that is not an array, an object or a string and for every string that does not
  parse. \<^verbatim>\<open>safeStringify\<close> returns a string on every path: the word \<^verbatim>\<open>undefined\<close> for
  \<^verbatim>\<open>undefined\<close> (through the first \<^verbatim>\<open>catch\<close>), and otherwise the text of the value cut
  to \<open>maxlen\<close> characters plus a marker, so never longer than \<open>maxlen + 16\<close>.
\<close>

theorem normalize_never_raises:
  "(\<exists>models. normalize rt raw = Inr models) \<and>
   ((\<not> isArray raw \<and> \<not> isObject raw \<and> \<not> isString raw) \<or>
    (isString raw \<and> JSON_parse rt (stringOf raw) = None) \<longrightarrow>
      normalize rt raw = Inr []) \<and>
   safeStringify rt obj maxlen =
     (if obj = JUndefined then ''undefined''
      else let s = (if isString obj then stringOf obj else JSON_stringify rt obj)
           in if length s > maxlen then take maxlen s @ ''... (truncated)'' else s) \<and>
   length (safeStringify rt obj maxlen) \<le> maxlen + 16"
proof -
  have a: "\<exists>models. normalize rt raw = Inr models"
    by (simp add: normalize_refines)
  have b: "(\<not> isArray raw \<and> \<not> isObject raw \<and> \<not> isString raw) \<or>
      (isString raw \<and> JSON_parse rt (stringOf raw) = None) \<longrightarrow> normalize rt raw = Inr []"
    by (cases raw) (simp_all add: normalize_refines normalize_spec_def detectShape_def)
  have c: "safeStringify rt obj maxlen =
     (if obj = JUndefined then ''undefined''
      else let s = (if isString obj then stringOf obj else JSON_stringify rt obj)
           in if length s > maxlen then take maxlen s @ ''... (truncated)'' else s)"
    by (cases obj) (simp_all add: safeStringify_def safeStringify_try_def Let_def)
  have d: "length (safeStringify rt obj maxlen) \<le> maxlen + 16"
    unfolding c by (simp add: Let_def)
  show ?thesis by (intro conjI) (rule a b c d)+
qed

text \<open>
  The theorem at a text that does not parse, at the number 5, at a ten-character string
  cut to four, and at \<^verbatim>\<open>undefined\<close>.
\<close>

theorem normalize_never_raises_witness:
  "isString (JStr ''not json'' :: int jsval) \<and>
   JSON_parse test_runtime (stringOf (JStr ''not json'' :: int jsval)) = None \<and>
   normalize test_runtime (JStr ''not json'') = Inr [] \<and>
   normalize test_runtime (JNum 5) = Inr [] \<and>
   safeStringify test_runtime (JStr ''abcdefghij'') 4 = ''abcd... (truncated)'' \<and>
   safeStringify test_runtime JUndefined 4 = ''undefined''"
proof -
  have s: "isString (JStr ''not json'' :: int jsval)" by simp
  have p: "JSON_parse test_runtime (stringOf (JStr ''not json'' :: int jsval)) = None"
    by (simp add: test_runtime_def test_parse_def test_documents_def show_string_def)
  have u: "\<not> isArray (JNum 5 :: int jsval) \<and> \<not> isObject (JNum 5 :: int jsval) \<and>
      \<not> isString (JNum 5 :: int jsval)"
    by simp
  from normalize_never_raises [of test_runtime "JStr ''not json''"] s p
  have a: "normalize test_runtime (JStr ''not json'') = Inr []" by blast
  from normalize_never_raises [of test_runtime "JNum 5"] u
  have b: "normalize test_runtime (JNum 5) = Inr []" by blast
  from normalize_never_raises [of test_runtime _ "JStr ''abcdefghij''" 4]
  have c: "safeStringify test_runtime (JStr ''abcdefghij'') 4 = ''abcd... (truncated)''"
    by simp
  from normalize_never_raises [of test_runtime _ JUndefined 4]
  have d: "safeStringify test_runtime JUndefined 4 = ''undefined''"
    by simp
  from s p a b c d show ?thesis by (intro conjI)
qed

subsection \<open>C5: the filter ignores case\<close>




subsection \<open>C6: the order of the provider keys\<close>

text \<open>
  Claim C6. For every provider-keyed payload (an object, so its keys are distinct), the
  length of the canonical list and the set of the names in it are the same for every
  permutation of the entries of the payload. When the payload reaches the provider-keyed
  branch, that length is the number of distinct model names the payload mentions.
\<close>

theorem unique_models_permutation_invariant:
  assumes d: "distinct (map fst kvs)" and p: "mset kvs' = mset kvs"
    and pk: "isProviderKeyedFormat (JObj kvs)"
  shows "\<exists>ms ms'. normalize rt (JObj kvs) = Inr ms \<and> normalize rt (JObj kvs') = Inr ms' \<and>
           length ms' = length ms \<and>
           (\<lambda>r. get_prop r ''name'') ` set ms' = (\<lambda>r. get_prop r ''name'') ` set ms \<and>
           (''models'' \<notin> fst ` set kvs \<and> ''data'' \<notin> fst ` set kvs \<longrightarrow>
              length ms = card {name. \<exists>(p, v) \<in> set kvs. JStr name \<in> set (arrayItems v)})"
proof -
  note same = perm_same_object [OF d p]
  have f: "fieldOf (JObj kvs') k = fieldOf (JObj kvs) k" for k
    by (simp add: same)
  have k: "isProviderKeyedFormat (JObj kvs') = isProviderKeyedFormat (JObj kvs)"
    by (simp add: isProviderKeyedFormat_def Object_values_def list_all_iff same)
  have l: "length (modelObjects (addProviders kvs' []) :: 'a jsval list) =
           length (modelObjects (addProviders kvs []) :: 'a jsval list)"
    by (simp add: length_modelObjects length_addProviders same)
  have n: "(\<lambda>r. get_prop r ''name'') ` set (modelObjects (addProviders kvs' []) :: 'a jsval list) =
           (\<lambda>r. get_prop r ''name'') ` set (modelObjects (addProviders kvs []) :: 'a jsval list)"
    by (simp only: names_modelObjects keys_addProviders same)
  show ?thesis
    using l n pk
    by (simp add: normalize_obj same(1) k map_of_absent length_modelObjects
          length_addProviders)
qed

text \<open>
The theorem at the first payload of the test suite and its two keys swapped.
\<close>

theorem unique_models_permutation_invariant_witness:
  "distinct (map fst scenarioA) \<and> mset scenarioA_swapped = mset scenarioA \<and>
   isProviderKeyedFormat (JObj scenarioA) \<and>
   (\<exists>ms ms'. normalize test_runtime (JObj scenarioA) = Inr ms \<and>
      normalize test_runtime (JObj scenarioA_swapped) = Inr ms' \<and>
      length ms' = length ms \<and>
      (\<lambda>r. get_prop r ''name'') ` set ms' = (\<lambda>r. get_prop r ''name'') ` set ms)"
proof -
  have h1: "distinct (map fst scenarioA)" by (simp add: scenarioA_def)
  have h2: "mset scenarioA_swapped = mset scenarioA"
    by (simp add: scenarioA_def scenarioA_swapped_def)
  have h3: "isProviderKeyedFormat (JObj scenarioA)"
    by (simp add: isProviderKeyedFormat_def Object_values_def scenarioA_def)
  from unique_models_permutation_invariant [OF h1 h2 h3, of test_runtime]
  obtain ms ms' where "normalize test_runtime (JObj scenarioA) = Inr ms"
    and "normalize test_runtime (JObj scenarioA_swapped) = Inr ms'"
    and "length ms' = length ms"
    and "(\<lambda>r. get_prop r ''name'') ` set ms' = (\<lambda>r. get_prop r ''name'') ` set ms"
    by (elim exE conjE)
  then have "\<exists>ms ms'. normalize test_runtime (JObj scenarioA) = Inr ms \<and>
      normalize test_runtime (JObj scenarioA_swapped) = Inr ms' \<and>
      length ms' = length ms \<and>
      (\<lambda>r. get_prop r ''name'') ` set ms' = (\<lambda>r. get_prop r ''name'') ` set ms"
    by (intro exI [of _ ms] exI [of _ ms'] conjI)
  with h1 h2 h3 show ?thesis by (intro conjI)
qed

subsection \<open>C7: the shapes of \<^verbatim>\<open>providers\<close>\<close>

text \<open>
  Claim C7. The filter reads the providers of a record (any entry of the list other than
  \<^verbatim>\<open>null\<close> and \<^verbatim>\<open>undefined\<close>, on which the property read itself throws) as follows: an
  array as it is, a string as the one-element list of it, an object as the list of its
  keys, and anything else, a missing field included, as the empty list. A record whose
  provider list is empty does not match and is in no result of the filter.
\<close>

theorem providers_tolerance:
  "providersOf rt (JArr ps) = ps \<and>
   providersOf rt (JStr s) = [JStr s] \<and>
   providersOf rt (JObj kvs) = map (\<lambda>kv. JStr (fst kv)) kvs \<and>
   (\<not> isArray p \<and> \<not> isString p \<and> \<not> isObject p \<longrightarrow> providersOf rt p = []) \<and>
   (model \<noteq> JUndefined \<and> model \<noteq> JNull \<longrightarrow>
      matchesProvider rt key model =
        someMatch rt key (providersOf rt (fieldOf model ''providers''))) \<and>
   (model \<noteq> JUndefined \<and> model \<noteq> JNull \<and> providersOf rt (fieldOf model ''providers'') = [] \<longrightarrow>
      matchesProvider rt key model = Inr False \<and>
      (\<forall>models kept. filterModels rt key models = Inr kept \<longrightarrow> model \<notin> set kept))"
proof -
  have a: "providersOf rt (JArr ps) = ps" "providersOf rt (JStr s) = [JStr s]"
    "providersOf rt (JObj kvs) = map (\<lambda>kv. JStr (fst kv)) kvs"
    by (simp_all add: providersOf_def Object_keys_def)
  have b: "\<not> isArray p \<and> \<not> isString p \<and> \<not> isObject p \<longrightarrow> providersOf rt p = []"
    by (cases p) (simp_all add: providersOf_def)
  have c: "matchesProvider rt key model =
        someMatch rt key (providersOf rt (fieldOf model ''providers''))"
    if "model \<noteq> JUndefined \<and> model \<noteq> JNull"
    using that by (simp add: matchesProvider_def get_prop_fieldOf ebind_def)
  have d: "matchesProvider rt key model = Inr False \<and>
      (\<forall>models kept. filterModels rt key models = Inr kept \<longrightarrow> model \<notin> set kept)"
    if h: "model \<noteq> JUndefined \<and> model \<noteq> JNull \<and> providersOf rt (fieldOf model ''providers'') = []"
  proof -
    from h have m: "matchesProvider rt key model = Inr False" by (simp add: c)
    then show ?thesis by (auto dest!: filterModels_Inr)
  qed
  from a b c d show ?thesis by blast
qed

text \<open>
  The theorem at an array, a string, an object, a number, and a record without a
  \<^verbatim>\<open>providers\<close> field.
\<close>

theorem providers_tolerance_witness:
  "providersOf test_runtime (JArr [JStr ''OpenaiAPI'']) = [JStr ''OpenaiAPI''] \<and>
   providersOf test_runtime (JStr ''OpenaiAPI'') = [JStr ''OpenaiAPI''] \<and>
   providersOf test_runtime (JObj [(''OpenaiAPI'', JBool True), (''Anthropic'', JBool True)]) =
     [JStr ''OpenaiAPI'', JStr ''Anthropic''] \<and>
   providersOf test_runtime (JNum 3) = [] \<and>
   providersOf test_runtime (fieldOf (JObj [(''name'', JStr ''m'')]) ''providers'') = [] \<and>
   matchesProvider test_runtime ''openaiapi'' (JObj [(''name'', JStr ''m'')]) = Inr False"
proof -
  let ?m = "JObj [(''name'', JStr ''m'')] :: int jsval"
  note t = providers_tolerance [of test_runtime "[JStr ''OpenaiAPI'']" "''OpenaiAPI''"
      "[(''OpenaiAPI'', JBool True), (''Anthropic'', JBool True)]" "JNum 3" ?m "''openaiapi''"]
  have u: "\<not> isArray (JNum 3 :: int jsval) \<and> \<not> isString (JNum 3 :: int jsval) \<and>
      \<not> isObject (JNum 3 :: int jsval)"
    by simp
  from t have a: "providersOf test_runtime (JArr [JStr ''OpenaiAPI'']) = [JStr ''OpenaiAPI'']"
    and b: "providersOf test_runtime (JStr ''OpenaiAPI'') = [JStr ''OpenaiAPI'']"
    and c: "providersOf test_runtime
        (JObj [(''OpenaiAPI'', JBool True), (''Anthropic'', JBool True)]) =
      [JStr ''OpenaiAPI'', JStr ''Anthropic'']"
    by simp_all
  from t u have d: "providersOf test_runtime (JNum 3) = []" by blast
  have e: "providersOf test_runtime (fieldOf ?m ''providers'') = []"
    by (simp add: providersOf_def)
  have "?m \<noteq> JUndefined \<and> ?m \<noteq> JNull \<and>
      providersOf test_runtime (fieldOf ?m ''providers'') = []"
    using e by simp
  with t have f: "matchesProvider test_runtime ''openaiapi'' ?m = Inr False" by blast
  from a b c d e f show ?thesis by (intro conjI)
qed

subsection \<open>C8: rendering\<close>

text \<open>
  Claim C8. The operation succeeds exactly when the filter keeps at least one record, and
  its result is then \<^verbatim>\<open>{object: "list", data}\<close> where \<^verbatim>\<open>data\<close> holds, in the order of the
  kept records, for each record \<open>r\<close> the object with \<^verbatim>\<open>id\<close> the name of \<open>r\<close>, \<^verbatim>\<open>object\<close> the
  string \<^verbatim>\<open>model\<close>, \<^verbatim>\<open>created\<close> 0, \<^verbatim>\<open>owned_by\<close> the empty string, \<^verbatim>\<open>image\<close> the image of
  \<open>r\<close> when it is truthy and \<^verbatim>\<open>false\<close> otherwise, and \<^verbatim>\<open>provider\<close> \<^verbatim>\<open>true\<close>.
\<close>

theorem rendering_of_survivors:
  "getModels_respond rt e data = Inr out \<longleftrightarrow>
     (\<exists>models kept.
        normalize rt data = Inr models \<and>
        filterModels rt (providerKeyOf rt e) models = Inr kept \<and> kept \<noteq> [] \<and>
        out = JObj [(''object'', JStr ''list''),
                    (''data'', JArr (map (\<lambda>r.
                       JObj [(''id'', fieldOf r ''name''),
                             (''object'', JStr ''model''),
                             (''created'', JNum 0),
                             (''owned_by'', JStr []),
                             (''image'', if truthy rt (fieldOf r ''image'')
                                         then fieldOf r ''image'' else JBool False),
                             (''provider'', JBool True)]) kept))])"
  by (auto simp: respond_cases normalize_refines split: sum.splits if_splits)

text \<open>
The theorem at the first payload of the test suite.
\<close>

theorem rendering_of_survivors_witness:
  "getModels_respond test_runtime test_env (JObj scenarioA) =
     Inr (JObj [(''object'', JStr ''list''),
                (''data'', JArr
                   [JObj [(''id'', JStr ''claude-3-opus''), (''object'', JStr ''model''),
                          (''created'', JNum 0), (''owned_by'', JStr []),
                          (''image'', JBool False), (''provider'', JBool True)],
                    JObj [(''id'', JStr ''gpt-4''), (''object'', JStr ''model''),
                          (''created'', JNum 0), (''owned_by'', JStr []),
                          (''image'', JBool False), (''provider'', JBool True)]])])"
proof -
  let ?opus = "JObj [(''name'', JStr ''claude-3-opus''),
      (''providers'', JArr [JStr ''Anthropic'', JStr ''OpenaiAPI''])] :: int jsval"
  let ?sonnet = "JObj [(''name'', JStr ''claude-3-sonnet''),
      (''providers'', JArr [JStr ''Anthropic''])] :: int jsval"
  let ?gpt = "JObj [(''name'', JStr ''gpt-4''),
      (''providers'', JArr [JStr ''OpenaiAPI''])] :: int jsval"
  have n: "normalize test_runtime (JObj scenarioA) = Inr [?opus, ?sonnet, ?gpt]"
    by (simp add: scenarioA_def normalize_def hasArrayProp_def ebind_def
          isProviderKeyedFormat_def Object_values_def modelObjects_def)
  have f: "filterModels test_runtime (providerKeyOf test_runtime test_env)
      [?opus, ?sonnet, ?gpt] = Inr [?opus, ?gpt]"
    by (simp add: providerKeyOf_def test_env_def test_runtime_def matchesProvider_def
          providersOf_def ebind_def ascii_lower_def ascii_lower_char_def)
  have "\<exists>models kept.
      normalize test_runtime (JObj scenarioA) = Inr models \<and>
      filterModels test_runtime (providerKeyOf test_runtime test_env) models = Inr kept \<and>
      kept \<noteq> [] \<and>
      JObj [(''object'', JStr ''list''),
            (''data'', JArr
               [JObj [(''id'', JStr ''claude-3-opus''), (''object'', JStr ''model''),
                      (''created'', JNum 0), (''owned_by'', JStr []),
                      (''image'', JBool False), (''provider'', JBool True)],
                JObj [(''id'', JStr ''gpt-4''), (''object'', JStr ''model''),
                      (''created'', JNum 0), (''owned_by'', JStr []),
                      (''image'', JBool False), (''provider'', JBool True)]])] =
      JObj [(''object'', JStr ''list''),
            (''data'', JArr (map (\<lambda>r.
               JObj [(''id'', fieldOf r ''name''),
                     (''object'', JStr ''model''),
                     (''created'', JNum 0),
                     (''owned_by'', JStr []),
                     (''image'', if truthy test_runtime (fieldOf r ''image'')
                                 then fieldOf r ''image'' else JBool False),
                     (''provider'', JBool True)]) kept))]"
    by (intro exI [of _ "[?opus, ?sonnet, ?gpt]"] exI [of _ "[?opus, ?gpt]"] conjI n f) simp_all
  then show ?thesis by (simp only: rendering_of_survivors)
qed

subsection \<open>C9: the \<^verbatim>\<open>Authorization\<close> header\<close>

text \<open>
  Claim C9, as amended. For every inbound request carrying a non-empty
  \<^verbatim>\<open>Authorization\<close> header, the upstream calls of the models and of the chat-completions
  operations carry that header, once and verbatim. When the inbound request has no
  \<^verbatim>\<open>Authorization\<close> header, or an empty one, no upstream call of any of the three
  operations carries one.
\<close>

theorem authorization_passthrough:
  "(in_headers req ''authorization'' = Some auth \<and> auth \<noteq> [] \<longrightarrow>
      (\<exists>request. upstreamRequest e store GetModels req = Inr request \<and>
         filter (\<lambda>h. fst h = ''Authorization'') (req_headers request) =
           [(''Authorization'', auth)]) \<and>
      (\<exists>request. upstreamRequest e store PostCompletions (req\<lparr>in_body := BodyObject a\<rparr>)
                   = Inr request \<and>
         filter (\<lambda>h. fst h = ''Authorization'') (req_headers request) =
           [(''Authorization'', auth)])) \<and>
   (in_headers req ''authorization'' = None \<or> in_headers req ''authorization'' = Some [] \<longrightarrow>
      (\<forall>r request. upstreamRequest e store r req = Inr request \<longrightarrow>
         ''Authorization'' \<notin> fst ` set (req_headers request)))"
proof -
  have a: "in_headers req ''authorization'' = Some auth \<and> auth \<noteq> [] \<longrightarrow>
      (\<exists>request. upstreamRequest e store GetModels req = Inr request \<and>
         filter (\<lambda>h. fst h = ''Authorization'') (req_headers request) =
           [(''Authorization'', auth)]) \<and>
      (\<exists>request. upstreamRequest e store PostCompletions (req\<lparr>in_body := BodyObject a\<rparr>)
                   = Inr request \<and>
         filter (\<lambda>h. fst h = ''Authorization'') (req_headers request) =
           [(''Authorization'', auth)])"
    by (simp add: upstreamRequest_def getModels_request_def postCompletions_def ebind_def
          authHeaders_def)
  have b: "in_headers req ''authorization'' = None \<or> in_headers req ''authorization'' = Some [] \<longrightarrow>
      (\<forall>r request. upstreamRequest e store r req = Inr request \<longrightarrow>
         ''Authorization'' \<notin> fst ` set (req_headers request))"
  proof (intro impI allI)
    fix r request
    assume h: "in_headers req ''authorization'' = None \<or> in_headers req ''authorization'' = Some []"
      and u: "upstreamRequest e store r req = Inr request"
    from h have "authHeaders (in_headers req) = []" by (simp add: authHeaders_cases)
    with upstreamRequest_headers [OF u]
    show "''Authorization'' \<notin> fst ` set (req_headers request)"
      by (cases r) simp_all
  qed
  show ?thesis by (intro conjI) (rule a b)+
qed

text \<open>
The theorem at a request with a bearer token and at a request without the header.
\<close>

theorem authorization_passthrough_witness:
  "in_headers bearer_request ''authorization'' = Some ''Bearer test'' \<and>
   (\<exists>request. upstreamRequest test_env test_store GetModels bearer_request = Inr request \<and>
      filter (\<lambda>h. fst h = ''Authorization'') (req_headers request) =
        [(''Authorization'', ''Bearer test'')]) \<and>
   (\<exists>request. upstreamRequest test_env test_store PostCompletions
                (bearer_request\<lparr>in_body := BodyObject 0\<rparr>) = Inr request \<and>
      filter (\<lambda>h. fst h = ''Authorization'') (req_headers request) =
        [(''Authorization'', ''Bearer test'')]) \<and>
   in_headers plain_request ''authorization'' = None \<and>
   upstreamRequest test_env test_store GetModels plain_request =
     Inr (getModels_request test_env Map.empty) \<and>
   ''Authorization'' \<notin> fst ` set (req_headers (getModels_request test_env Map.empty))"
proof -
  have h: "in_headers bearer_request ''authorization'' = Some ''Bearer test''"
    by (simp add: bearer_request_def bearer_headers_def)
  have ne: "''Bearer test'' \<noteq> []" by simp
  note t = authorization_passthrough
    [of bearer_request "''Bearer test''" test_env test_store 0]
  from t h ne
  have a: "\<exists>request. upstreamRequest test_env test_store GetModels bearer_request = Inr request \<and>
      filter (\<lambda>h. fst h = ''Authorization'') (req_headers request) =
        [(''Authorization'', ''Bearer test'')]"
    and b: "\<exists>request. upstreamRequest test_env test_store PostCompletions
                (bearer_request\<lparr>in_body := BodyObject 0\<rparr>) = Inr request \<and>
      filter (\<lambda>h. fst h = ''Authorization'') (req_headers request) =
        [(''Authorization'', ''Bearer test'')]"
    by blast+
  have n: "in_headers plain_request ''authorization'' = None"
    by (simp add: plain_request_def)
  have u: "upstreamRequest test_env test_store GetModels plain_request =
      Inr (getModels_request test_env Map.empty)"
    by (simp add: upstreamRequest_def plain_request_def)
  note t' = authorization_passthrough [of plain_request _ test_env test_store]
  from t' n u
  have c: "''Authorization'' \<notin> fst ` set (req_headers (getModels_request test_env Map.empty))"
    by blast
  from h a b n u c show ?thesis by (intro conjI)
qed

text \<open>
  C9 as stated fails twice. The providers operation takes no headers: for an inbound
  request with a bearer token its upstream call carries no header at all. And a header
  that is present but empty is dropped by the models operation.
\<close>

theorem authorization_passthrough_counterexample:
  "in_headers bearer_request ''authorization'' = Some ''Bearer test'' \<and>
   upstreamRequest test_env test_store GetProviders bearer_request =
     Inr \<lparr>req_method = ''GET'', req_url = ''http://test-upstream/v1/providers'',
          req_headers = [], req_body = None, req_responseType = None\<rparr> \<and>
   in_headers empty_auth_request ''authorization'' = Some [] \<and>
   upstreamRequest test_env test_store GetModels empty_auth_request =
     Inr \<lparr>req_method = ''GET'', req_url = ''http://test-upstream/backend-api/v2/models'',
          req_headers = [], req_body = None, req_responseType = None\<rparr>"
  by (simp add: bearer_request_def bearer_headers_def empty_auth_request_def
        empty_auth_headers_def upstreamRequest_def getProviders_request_def
        getModels_request_def authHeaders_def test_env_def interpolate_def)

subsection \<open>C10: the body of a chat completion\<close>

text \<open>
  Claim C10. For every body object handed to \<^verbatim>\<open>postCompletions\<close>, the call succeeds, the
  forwarded request carries that same object, and in the store the object has its
  \<^verbatim>\<open>provider\<close> field set to the value of \<^verbatim>\<open>LLM_PROXY_PROVIDER\<close>, whatever it held before;
  every other field keeps its value and its place, and no other object changes.
\<close>

theorem postCompletions_sets_provider:
  "\<exists>store' request.
     postCompletions e store (BodyObject a) headers = Inr (store', request) \<and>
     req_body request = Some a \<and>
     map_of (store' a) ''provider'' = Some (envValue (LLM_PROXY_PROVIDER e)) \<and>
     (\<forall>p. LLM_PROXY_PROVIDER e = Some p \<longrightarrow> map_of (store' a) ''provider'' = Some (JStr p)) \<and>
     (\<forall>k. k \<noteq> ''provider'' \<longrightarrow> map_of (store' a) k = map_of (store a) k) \<and>
     filter (\<lambda>kv. fst kv \<noteq> ''provider'') (store' a) =
       filter (\<lambda>kv. fst kv \<noteq> ''provider'') (store a) \<and>
     (\<forall>b. b \<noteq> a \<longrightarrow> store' b = store b)"
  by (simp add: postCompletions_def map_of_upsert upsert_other envValue_def)

text \<open>
  The theorem at a body that came with \<^verbatim>\<open>provider: "Other"\<close>: the field now holds the
  configured provider, the other two fields are as they were.
\<close>

theorem postCompletions_sets_provider_witness:
  "\<exists>store' request.
     postCompletions test_env test_store (BodyObject 0) bearer_headers = Inr (store', request) \<and>
     req_body request = Some 0 \<and>
     map_of (store' 0) ''provider'' = Some (JStr ''OpenaiAPI'') \<and>
     map_of (store' 0) ''model'' = Some (JStr ''gpt-4'') \<and>
     filter (\<lambda>kv. fst kv \<noteq> ''provider'') (store' 0) =
       [(''model'', JStr ''gpt-4''), (''stream'', JBool True)] \<and>
     store' 1 = []"
proof -
  from postCompletions_sets_provider [of test_env test_store 0 bearer_headers]
  obtain store' request
    where p: "postCompletions test_env test_store (BodyObject 0) bearer_headers =
        Inr (store', request)"
      and b: "req_body request = Some 0"
      and v: "\<forall>p. LLM_PROXY_PROVIDER test_env = Some p \<longrightarrow>
          map_of (store' 0) ''provider'' = Some (JStr p)"
      and o: "\<forall>k. k \<noteq> ''provider'' \<longrightarrow> map_of (store' 0) k = map_of (test_store 0) k"
      and f: "filter (\<lambda>kv. fst kv \<noteq> ''provider'') (store' 0) =
          filter (\<lambda>kv. fst kv \<noteq> ''provider'') (test_store 0)"
      and r: "\<forall>b. b \<noteq> 0 \<longrightarrow> store' b = test_store b"
    by (elim exE conjE)
  from v have v': "map_of (store' 0) ''provider'' = Some (JStr ''OpenaiAPI'')"
    by (simp add: test_env_def)
  from o have o': "map_of (store' 0) ''model'' = Some (JStr ''gpt-4'')"
    by (simp add: test_store_def)
  from f have f': "filter (\<lambda>kv. fst kv \<noteq> ''provider'') (store' 0) =
      [(''model'', JStr ''gpt-4''), (''stream'', JBool True)]"
    by (simp add: test_store_def)
  from r have r': "store' 1 = []" by (simp add: test_store_def)
  from p b v' o' f' r' show ?thesis by (intro exI [of _ store'] exI [of _ request] conjI)
qed

end
